theory Spec2Isabelle
  imports Main "HOL-Library.Sublist"
begin

section \<open>Dashboard utilities of the CCTV clocking system\<close>

text \<open>
  A shallow embedding of the monitoring core of \<^verbatim>\<open>static/js/dashboard-utils.js\<close>:
  the \<^verbatim>\<open>NewaySecurity\<close> namespace with its video reconnect logic, its two polling
  timers, the recent-events feed and the \<^verbatim>\<open>StatusManager\<close> submodule. The script runs
  on one event loop, so the model is a state record and one function per callback; the
  browser's timer table, its outstanding fetches and the console are fields of the state.
\<close>

subsection \<open>Values and configuration\<close>

text \<open>The JavaScript values that reach the indicator updaters and the response guards.\<close>

datatype jsval = JUndefined | JBool bool | JStr string

fun truthy :: "jsval \<Rightarrow> bool" where
  "truthy JUndefined = False"
| "truthy (JBool b) = b"
| "truthy (JStr s) = (s \<noteq> [])"

text \<open>\<^verbatim>\<open>NewaySecurity.config\<close> (lines 11-16).\<close>

record config =
  refreshInterval :: nat
  statusCheckInterval :: nat
  reconnectAttempts :: nat
  timeoutDelay :: nat

definition default_config :: config where
  "default_config =
     \<lparr>refreshInterval = 30000, statusCheckInterval = 60000,
      reconnectAttempts = 3, timeoutDelay = 2000\<rparr>"

text \<open>Decimal text of a number, as a template literal interpolates it.\<close>

fun dec :: "nat \<Rightarrow> string" where
  "dec n =
     (if n < 10 then [char_of (48 + n)]
      else dec (n div 10) @ [char_of (48 + n mod 10)])"

declare dec.simps [simp del]

subsection \<open>Remote data\<close>

text \<open>One record of \<^verbatim>\<open>/api/logs\<close>, with the field names the script reads.\<close>

record event_record =
  Name :: string
  Date :: string
  Time :: string
  Event :: string

text \<open>
  The object a response body parses to. A field that is missing reads as
  \<^verbatim>\<open>undefined\<close>: \<open>JUndefined\<close>, or \<open>None\<close> for the array.
\<close>

record api_data =
  success :: jsval
  status :: jsval
  network :: jsval
  events :: "event_record list option"

datatype json = JNull | JObj api_data

text \<open>A settled promise.\<close>

datatype 'a settled = Fulfilled 'a | Rejected string

text \<open>A response either carries a body that parses, or one that does not.\<close>

datatype response = Body_ok json | Body_malformed

subsection \<open>The page and the state\<close>

datatype channel = EventsChannel | StatusChannel

datatype console_entry = ConsoleLog string | ConsoleError string

text \<open>A status indicator element: its class list and its title attribute.\<close>

record indicator =
  classList :: "string list"
  title :: "string option"

text \<open>One rendered \<^verbatim>\<open>recent-event-item\<close>: the four holes of its template.\<close>

record event_item =
  item_time :: string
  item_name :: string
  badge_class :: string
  badge_text :: string

text \<open>
  \<^verbatim>\<open>state\<close>, the cached \<^verbatim>\<open>elements\<close> (an element the page lacks is \<open>None\<close>), the
  \<^verbatim>\<open>StatusManager.indicators\<close>, one \<^verbatim>\<open>attempts\<close> counter per call of
  \<^verbatim>\<open>attemptReconnect\<close> (the variable its closure captures, addressed by position),
  the pending one-shot timers (closure, delay), the repeating timers (callback, period,
  time of arming), the outstanding fetches and the console.
\<close>

record dashboard =
  cameraConnected :: bool
  recentEvents :: "event_record list option"
  el_videoFeed :: "string option"
  el_videoStatus :: "string option"
  el_recentEvents :: "event_item list option"
  el_recognitionCount :: "string option"
  ind_camera :: "indicator option"
  ind_system :: "indicator option"
  ind_network :: "indicator option"
  attempts :: "nat list"
  timeouts :: "(nat \<times> nat) list"
  intervals :: "(channel \<times> nat \<times> nat) list"
  inflight :: "channel list"
  console :: "console_entry list"

subsection \<open>StatusManager\<close>

definition classList_add :: "string \<Rightarrow> indicator \<Rightarrow> indicator" where
  "classList_add c i =
     (if c \<in> set (classList i) then i else i\<lparr>classList := classList i @ [c]\<rparr>)"

definition classList_remove :: "string list \<Rightarrow> indicator \<Rightarrow> indicator" where
  "classList_remove cs i = i\<lparr>classList := filter (\<lambda>c. c \<notin> set cs) (classList i)\<rparr>"

definition setAttribute_title :: "string \<Rightarrow> indicator \<Rightarrow> indicator" where
  "setAttribute_title t i = i\<lparr>title := Some t\<rparr>"

text \<open>\<^verbatim>\<open>updateCameraStatus\<close> (lines 357-369).\<close>

definition updateCameraStatus :: "bool \<Rightarrow> dashboard \<Rightarrow> dashboard" where
  "updateCameraStatus isConnected s =
     (case ind_camera s of
        None \<Rightarrow> s
      | Some i \<Rightarrow>
          if isConnected then
            s\<lparr>ind_camera := Some (setAttribute_title ''Camera Connected''
                 (classList_add ''status-online'' (classList_remove [''status-offline''] i)))\<rparr>
          else
            s\<lparr>ind_camera := Some (setAttribute_title ''Camera Disconnected''
                 (classList_add ''status-offline'' (classList_remove [''status-online''] i)))\<rparr>)"

text \<open>
  \<^verbatim>\<open>updateSystemStatus\<close> (lines 374-393). The \<^verbatim>\<open>switch\<close> compares strictly with the
  three strings; any other value leaves the indicator with no status class.
\<close>

definition updateSystemStatus :: "jsval \<Rightarrow> dashboard \<Rightarrow> dashboard" where
  "updateSystemStatus st s =
     (case ind_system s of
        None \<Rightarrow> s
      | Some i \<Rightarrow>
          (let i1 = classList_remove [''status-online'', ''status-offline'', ''status-warning''] i
           in if st = JStr ''online'' then
                s\<lparr>ind_system := Some (setAttribute_title ''System Online''
                     (classList_add ''status-online'' i1))\<rparr>
              else if st = JStr ''warning'' then
                s\<lparr>ind_system := Some (setAttribute_title ''System Warning''
                     (classList_add ''status-warning'' i1))\<rparr>
              else if st = JStr ''offline'' then
                s\<lparr>ind_system := Some (setAttribute_title ''System Offline''
                     (classList_add ''status-offline'' i1))\<rparr>
              else s\<lparr>ind_system := Some i1\<rparr>))"

text \<open>\<^verbatim>\<open>updateNetworkStatus\<close> (lines 398-410).\<close>

definition updateNetworkStatus :: "jsval \<Rightarrow> dashboard \<Rightarrow> dashboard" where
  "updateNetworkStatus st s =
     (case ind_network s of
        None \<Rightarrow> s
      | Some i \<Rightarrow>
          if truthy st then
            s\<lparr>ind_network := Some (setAttribute_title ''Network Connected''
                 (classList_add ''status-online'' (classList_remove [''status-offline''] i)))\<rparr>
          else
            s\<lparr>ind_network := Some (setAttribute_title ''Network Disconnected''
                 (classList_add ''status-offline'' (classList_remove [''status-online''] i)))\<rparr>)"

subsection \<open>Promise chains\<close>

text \<open>
  A handler runs on the state and settles the promise that \<^verbatim>\<open>then\<close> or \<^verbatim>\<open>catch\<close>
  returns. \<^verbatim>\<open>then\<close> skips its handler on a rejected promise, \<^verbatim>\<open>catch\<close> on a
  fulfilled one.
\<close>

fun promise_then ::
  "('a \<Rightarrow> dashboard \<Rightarrow> dashboard \<times> 'b settled) \<Rightarrow> dashboard \<times> 'a settled \<Rightarrow> dashboard \<times> 'b settled"
where
  "promise_then f (s, Fulfilled x) = f x s"
| "promise_then f (s, Rejected e) = (s, Rejected e)"

fun promise_catch ::
  "(string \<Rightarrow> dashboard \<Rightarrow> dashboard \<times> unit settled) \<Rightarrow> dashboard \<times> unit settled \<Rightarrow> dashboard \<times> unit settled"
where
  "promise_catch h (s, Fulfilled x) = (s, Fulfilled x)"
| "promise_catch h (s, Rejected e) = h e s"

text \<open>\<^verbatim>\<open>response => response.json()\<close>.\<close>

fun response_json :: "response \<Rightarrow> dashboard \<Rightarrow> dashboard \<times> json settled" where
  "response_json (Body_ok j) s = (s, Fulfilled j)"
| "response_json Body_malformed s = (s, Rejected ''SyntaxError'')"

subsection \<open>StatusManager.checkStatus\<close>

text \<open>
  \<^verbatim>\<open>checkStatus\<close> (lines 334-352), up to the call of \<^verbatim>\<open>fetch\<close>: the camera
  indicator is refreshed and one request joins the outstanding ones.
\<close>

definition checkStatus :: "dashboard \<Rightarrow> dashboard" where
  "checkStatus s =
     (let s1 = updateCameraStatus (cameraConnected s) s
      in s1\<lparr>inflight := inflight s1 @ [StatusChannel]\<rparr>)"

text \<open>The two handlers of its promise chain (lines 341-351).\<close>

fun checkStatus_data :: "json \<Rightarrow> dashboard \<Rightarrow> dashboard \<times> unit settled" where
  "checkStatus_data JNull s = (s, Rejected ''TypeError'')"
| "checkStatus_data (JObj d) s =
     (if truthy (success d)
      then (updateNetworkStatus (network d) (updateSystemStatus (status d) s), Fulfilled ())
      else (s, Fulfilled ()))"

definition checkStatus_error :: "string \<Rightarrow> dashboard \<Rightarrow> dashboard \<times> unit settled" where
  "checkStatus_error e s =
     (updateNetworkStatus (JBool False)
        (updateSystemStatus (JBool False)
           (s\<lparr>console := console s @ [ConsoleError ''Error checking system status:'']\<rparr>)),
      Fulfilled ())"

text \<open>The chain run on the outcome of the request; the second component is the promise
  that \<^verbatim>\<open>catch\<close> returns.\<close>

definition checkStatus_settled :: "response settled \<Rightarrow> dashboard \<Rightarrow> dashboard \<times> unit settled" where
  "checkStatus_settled outcome s =
     promise_catch checkStatus_error
       (promise_then checkStatus_data (promise_then response_json (s, outcome)))"

subsection \<open>The recent-events feed\<close>

text \<open>
  The \<^verbatim>\<open>Date\<close> built-ins the renderer calls depend on the browser's locale and time
  zone; they are parameters of the model.
\<close>

datatype jsdate = InvalidDate | TimeValue int

record date_env =
  parseDate :: "string \<Rightarrow> jsdate"
  toDateString :: "jsdate \<Rightarrow> string"
  toLocaleTimeString :: "jsdate \<Rightarrow> string"
  toLocaleString :: "jsdate \<Rightarrow> string"

text \<open>The body of the \<^verbatim>\<open>forEach\<close> of \<^verbatim>\<open>updateRecentEventsDisplay\<close> (lines 270-295).\<close>

definition renderEvent :: "date_env \<Rightarrow> nat \<Rightarrow> event_record \<Rightarrow> event_item" where
  "renderEvent env now ev =
     (let eventDate = parseDate env (Date ev @ '' '' @ Time ev);
          isToday = (toDateString env eventDate = toDateString env (TimeValue (int now)));
          timeStr = (if isToday then ''Today, '' @ toLocaleTimeString env eventDate
                     else toLocaleString env eventDate)
      in \<lparr>item_time = timeStr,
          item_name = Name ev,
          badge_class = (if Event ev = ''IN'' then ''bg-success'' else ''bg-secondary''),
          badge_text = (if Event ev = ''IN'' then ''Clock In'' else ''Clock Out'')\<rparr>)"

text \<open>\<^verbatim>\<open>updateRecentEventsDisplay\<close> (lines 263-301).\<close>

definition updateRecentEventsDisplay ::
  "date_env \<Rightarrow> nat \<Rightarrow> event_record list option \<Rightarrow> dashboard \<Rightarrow> dashboard"
where
  "updateRecentEventsDisplay env now evs s =
     (if el_recentEvents s = None \<or> evs = None \<or> evs = Some [] then s
      else
        (let s1 = s\<lparr>el_recentEvents := Some (map (renderEvent env now) (the evs))\<rparr>
         in if el_recognitionCount s1 = None then s1
            else s1\<lparr>el_recognitionCount := Some (dec (length (the evs)))\<rparr>))"

text \<open>\<^verbatim>\<open>refreshRecentEvents\<close> (lines 240-258), up to the call of \<^verbatim>\<open>fetch\<close>.\<close>

definition refreshRecentEvents :: "dashboard \<Rightarrow> dashboard" where
  "refreshRecentEvents s =
     (if el_recentEvents s = None then s
      else s\<lparr>inflight := inflight s @ [EventsChannel]\<rparr>)"

text \<open>The two handlers of its promise chain (lines 246-257).\<close>

fun refreshRecentEvents_data ::
  "date_env \<Rightarrow> nat \<Rightarrow> json \<Rightarrow> dashboard \<Rightarrow> dashboard \<times> unit settled"
where
  "refreshRecentEvents_data env now JNull s = (s, Rejected ''TypeError'')"
| "refreshRecentEvents_data env now (JObj d) s =
     (if truthy (success d)
      then (updateRecentEventsDisplay env now (events d) (s\<lparr>recentEvents := events d\<rparr>),
            Fulfilled ())
      else (s, Fulfilled ()))"

definition refreshRecentEvents_error :: "string \<Rightarrow> dashboard \<Rightarrow> dashboard \<times> unit settled" where
  "refreshRecentEvents_error e s =
     (s\<lparr>console := console s @ [ConsoleError ''Error fetching recent events:'']\<rparr>,
      Fulfilled ())"

definition refreshRecentEvents_settled ::
  "date_env \<Rightarrow> nat \<Rightarrow> response settled \<Rightarrow> dashboard \<Rightarrow> dashboard \<times> unit settled"
where
  "refreshRecentEvents_settled env now outcome s =
     promise_catch refreshRecentEvents_error
       (promise_then (refreshRecentEvents_data env now)
          (promise_then response_json (s, outcome)))"

subsection \<open>Video feed and reconnection\<close>

text \<open>
  \<^verbatim>\<open>tryReconnect\<close>, the closure inside \<^verbatim>\<open>attemptReconnect\<close> (lines 205-231);
  \<open>sid\<close> addresses the \<^verbatim>\<open>attempts\<close> variable it captured. A closure exists for
  every timer that names it, so the first branch is never taken by the script. The
  status text is the template's without its icon markup.
\<close>

definition tryReconnect :: "config \<Rightarrow> nat \<Rightarrow> nat \<Rightarrow> dashboard \<Rightarrow> dashboard" where
  "tryReconnect cfg now sid s =
     (if length (attempts s) \<le> sid then s
      else if reconnectAttempts cfg \<le> attempts s ! sid then
        s\<lparr>console := console s @ [ConsoleError ''Failed to reconnect after multiple attempts'']\<rparr>
      else
        (let a = attempts s ! sid + 1;
             progress = ''Reconnecting ('' @ dec a @ ''/'' @ dec (reconnectAttempts cfg) @ '')...'';
             s1 = s\<lparr>attempts := (attempts s)[sid := a],
                    console := console s @ [ConsoleLog (''Attempting to reconnect ('' @ dec a
                                 @ ''/'' @ dec (reconnectAttempts cfg) @ '')...'')]\<rparr>;
             s2 = (if el_videoStatus s1 = None then s1
                   else s1\<lparr>el_videoStatus := Some progress\<rparr>);
             s3 = (case el_videoFeed s2 of
                     None \<Rightarrow> s2
                   | Some src \<Rightarrow>
                       s2\<lparr>el_videoFeed :=
                            Some (takeWhile (\<lambda>c. c \<noteq> CHR ''?'') src @ ''?t='' @ dec now)\<rparr>)
         in s3\<lparr>timeouts := timeouts s3 @ [(sid, timeoutDelay cfg * a)]\<rparr>))"

text \<open>The callback handed to \<^verbatim>\<open>setTimeout\<close> (lines 226-230).\<close>

definition timeoutCallback :: "config \<Rightarrow> nat \<Rightarrow> nat \<Rightarrow> dashboard \<Rightarrow> dashboard" where
  "timeoutCallback cfg now sid s =
     (if \<not> cameraConnected s then tryReconnect cfg now sid s else s)"

text \<open>\<^verbatim>\<open>attemptReconnect\<close> (lines 202-235): a fresh counter, then the first try.\<close>

definition attemptReconnect :: "config \<Rightarrow> nat \<Rightarrow> dashboard \<Rightarrow> dashboard" where
  "attemptReconnect cfg now s =
     tryReconnect cfg now (length (attempts s)) (s\<lparr>attempts := attempts s @ [0]\<rparr>)"

text \<open>\<^verbatim>\<open>handleVideoError\<close> (lines 142-149) and \<^verbatim>\<open>handleVideoLoad\<close> (lines 154-158).\<close>

definition handleVideoError :: "config \<Rightarrow> nat \<Rightarrow> dashboard \<Rightarrow> dashboard" where
  "handleVideoError cfg now s =
     attemptReconnect cfg now
       (updateCameraStatus False
          (s\<lparr>cameraConnected := False,
             console := console s @ [ConsoleError ''Video feed error:'']\<rparr>))"

definition handleVideoLoad :: "dashboard \<Rightarrow> dashboard" where
  "handleVideoLoad s =
     updateCameraStatus True
       (s\<lparr>cameraConnected := True,
          console := console s @ [ConsoleLog ''Video feed loaded successfully'']\<rparr>)"

subsection \<open>Timers, visibility and start-up\<close>

text \<open>\<^verbatim>\<open>startRefreshTimers\<close> (lines 106-116): two repeating timers, armed now.\<close>

definition startRefreshTimers :: "config \<Rightarrow> nat \<Rightarrow> dashboard \<Rightarrow> dashboard" where
  "startRefreshTimers cfg now s =
     s\<lparr>intervals := intervals s @
          [(EventsChannel, refreshInterval cfg, now),
           (StatusChannel, statusCheckInterval cfg, now)]\<rparr>"

text \<open>The two arrow functions handed to \<^verbatim>\<open>setInterval\<close>.\<close>

fun intervalCallback :: "channel \<Rightarrow> dashboard \<Rightarrow> dashboard" where
  "intervalCallback EventsChannel s = refreshRecentEvents s"
| "intervalCallback StatusChannel s = checkStatus s"

text \<open>\<^verbatim>\<open>handleVisibilityChange\<close> (lines 191-197); \<open>hidden\<close> is \<^verbatim>\<open>document.hidden\<close>.\<close>

definition handleVisibilityChange :: "bool \<Rightarrow> dashboard \<Rightarrow> dashboard" where
  "handleVisibilityChange hidden s =
     (if \<not> hidden then checkStatus (refreshRecentEvents s) else s)"

text \<open>
  \<^verbatim>\<open>init\<close> (lines 33-52) on a page whose elements are already in the state: the
  initial status check of \<^verbatim>\<open>StatusManager.init\<close>, then the timers.
\<close>

definition init :: "config \<Rightarrow> nat \<Rightarrow> dashboard \<Rightarrow> dashboard" where
  "init cfg now s =
     (let s1 = s\<lparr>console := console s @
                  [ConsoleLog ''Initializing NEWAY SECURITY dashboard utilities...'']\<rparr>;
          s2 = startRefreshTimers cfg now (checkStatus s1)
      in s2\<lparr>console := console s2 @ [ConsoleLog ''Dashboard utilities initialized'']\<rparr>)"

subsection \<open>The event loop\<close>

text \<open>
  What the browser delivers to the script: the two events of the video element, the
  expiry of the pending one-shot timer at a position of the timer table, a tick of a
  repeating timer, a visibility change, and the outcome of an outstanding request.
\<close>

datatype event =
    VideoError
  | VideoLoad
  | TimeoutFires nat
  | IntervalFires nat
  | VisibilityChange bool
  | FetchSettles nat "response settled"

definition remove_nth :: "nat \<Rightarrow> 'a list \<Rightarrow> 'a list" where
  "remove_nth i xs = take i xs @ drop (Suc i) xs"

text \<open>
  One turn of the loop at time \<open>now\<close>. A one-shot timer and a settled request leave
  their tables before the callback runs; a repeating timer stays. An event naming an
  entry that does not exist cannot occur and changes nothing.
\<close>

fun step :: "config \<Rightarrow> date_env \<Rightarrow> nat \<Rightarrow> event \<Rightarrow> dashboard \<Rightarrow> dashboard" where
  "step cfg env now VideoError s = handleVideoError cfg now s"
| "step cfg env now VideoLoad s = handleVideoLoad s"
| "step cfg env now (TimeoutFires i) s =
     (if i < length (timeouts s)
      then timeoutCallback cfg now (fst (timeouts s ! i))
             (s\<lparr>timeouts := remove_nth i (timeouts s)\<rparr>)
      else s)"
| "step cfg env now (IntervalFires i) s =
     (if i < length (intervals s) then intervalCallback (fst (intervals s ! i)) s else s)"
| "step cfg env now (VisibilityChange hidden) s = handleVisibilityChange hidden s"
| "step cfg env now (FetchSettles i outcome) s =
     (if i < length (inflight s)
      then (case inflight s ! i of
              EventsChannel \<Rightarrow>
                fst (refreshRecentEvents_settled env now outcome
                       (s\<lparr>inflight := remove_nth i (inflight s)\<rparr>))
            | StatusChannel \<Rightarrow>
                fst (checkStatus_settled outcome (s\<lparr>inflight := remove_nth i (inflight s)\<rparr>)))
      else s)"

text \<open>A run of the loop over timed events.\<close>

fun run :: "config \<Rightarrow> date_env \<Rightarrow> (nat \<times> event) list \<Rightarrow> dashboard \<Rightarrow> dashboard" where
  "run cfg env [] s = s"
| "run cfg env (e # es) s = run cfg env es (step cfg env (fst e) (snd e) s)"

text \<open>Consecutive expiries of the first pending one-shot timer, at the given times.\<close>

definition expiries :: "nat list \<Rightarrow> (nat \<times> event) list" where
  "expiries ts = map (\<lambda>t. (t, TimeoutFires 0)) ts"

subsection \<open>A sample page\<close>

text \<open>
  The start state of the script (lines 22-28) on a page that has every element the
  script looks up, and a sample of the date built-ins for one time zone and locale.
\<close>

definition sample_page :: dashboard where
  "sample_page =
     \<lparr>cameraConnected = False,
      recentEvents = Some [],
      el_videoFeed = Some ''/video_feed'',
      el_videoStatus = Some [],
      el_recentEvents = Some [],
      el_recognitionCount = Some ''0'',
      ind_camera = Some \<lparr>classList = [''status-indicator'', ''camera-status''], title = None\<rparr>,
      ind_system = Some \<lparr>classList = [''status-indicator'', ''system-status''], title = None\<rparr>,
      ind_network = Some \<lparr>classList = [''status-indicator'', ''network-status''], title = None\<rparr>,
      attempts = [],
      timeouts = [],
      intervals = [],
      inflight = [],
      console = []\<rparr>"

definition sample_env :: date_env where
  "sample_env =
     \<lparr>parseDate = (\<lambda>s. if s = ''2025-01-15 08:15:00'' then TimeValue 1736928900000
                        else if s = ''2025-01-14 17:30:00'' then TimeValue 1736875800000
                        else InvalidDate),
      toDateString = (\<lambda>d. case d of
                        InvalidDate \<Rightarrow> ''Invalid Date''
                      | TimeValue t \<Rightarrow>
                          if 1736899200000 \<le> t \<and> t < 1736985600000 then ''Wed Jan 15 2025''
                          else if 1736812800000 \<le> t \<and> t < 1736899200000 then ''Tue Jan 14 2025''
                          else ''Some other day''),
      toLocaleTimeString = (\<lambda>d. if d = TimeValue 1736928900000 then ''8:15:00 AM''
                                 else if d = TimeValue 1736875800000 then ''5:30:00 PM''
                                 else ''Invalid Date''),
      toLocaleString = (\<lambda>d. if d = TimeValue 1736928900000 then ''1/15/2025, 8:15:00 AM''
                             else if d = TimeValue 1736875800000 then ''1/14/2025, 5:30:00 PM''
                             else ''Invalid Date'')\<rparr>"

text \<open>The sample page after \<^verbatim>\<open>init\<close> at time 0, with the default configuration.\<close>

definition loaded_page :: dashboard where
  "loaded_page = init default_config 0 sample_page"

text \<open>Consecutive ticks of the repeating timer at position \<open>i\<close>, at the given times.\<close>

definition ticks :: "nat \<Rightarrow> nat list \<Rightarrow> (nat \<times> event) list" where
  "ticks i ts = map (\<lambda>t. (t, IntervalFires i)) ts"

text \<open>The pending one-shot timers that belong to the sequence \<open>sid\<close>.\<close>

definition own_timers :: "nat \<Rightarrow> dashboard \<Rightarrow> (nat \<times> nat) list" where
  "own_timers sid s = filter (\<lambda>p. fst p = sid) (timeouts s)"

text \<open>
  The sample page after a stream error at time 0 and three expiries with no load event:
  three attempts, then the expiry at which the sequence gives up.
\<close>

definition given_up_page :: dashboard where
  "given_up_page =
     run default_config sample_env ((0, VideoError) # expiries [2000, 6000, 12000]) sample_page"

text \<open>Sample replies of the two endpoints, and the sample page after each.\<close>

definition sample_events :: "event_record list" where
  "sample_events =
     [\<lparr>Name = ''J. Doe'', Date = ''2025-01-15'', Time = ''08:15:00'', Event = ''IN''\<rparr>,
      \<lparr>Name = ''A. Smith'', Date = ''2025-01-14'', Time = ''17:30:00'', Event = ''OUT''\<rparr>,
      \<lparr>Name = ''J. Doe'', Date = ''2025-01-15'', Time = ''08:15:00'', Event = ''BREAK''\<rparr>]"

definition logs_reply :: "event_record list \<Rightarrow> api_data" where
  "logs_reply evs =
     \<lparr>success = JBool True, status = JUndefined, network = JUndefined, events = Some evs\<rparr>"

definition status_reply :: "bool \<Rightarrow> api_data" where
  "status_reply ok =
     \<lparr>success = JBool ok, status = JStr ''online'', network = JBool True, events = None\<rparr>"

definition online_page :: dashboard where
  "online_page =
     fst (checkStatus_settled (Fulfilled (Body_ok (JObj (status_reply True)))) sample_page)"

definition feed_page :: dashboard where
  "feed_page =
     fst (refreshRecentEvents_settled sample_env 1736930000000
            (Fulfilled (Body_ok (JObj (logs_reply sample_events)))) sample_page)"

section \<open>Properties\<close>

subsection \<open>Frame lemmas and runs\<close>

lemma run_append: "run cfg env (es @ fs) s = run cfg env fs (run cfg env es s)"
  by (induction es arbitrary: s) simp_all

lemma expiries_snoc: "expiries (ts @ [t]) = expiries ts @ [(t, TimeoutFires 0)]"
  by (simp add: expiries_def)

lemma updateCameraStatus_frame [simp]:
  "attempts (updateCameraStatus b s) = attempts s"
  "timeouts (updateCameraStatus b s) = timeouts s"
  "cameraConnected (updateCameraStatus b s) = cameraConnected s"
  "el_videoFeed (updateCameraStatus b s) = el_videoFeed s"
  "inflight (updateCameraStatus b s) = inflight s"
  "intervals (updateCameraStatus b s) = intervals s"
  "el_recentEvents (updateCameraStatus b s) = el_recentEvents s"
  by (simp_all add: updateCameraStatus_def split: option.splits)

lemma updateSystemStatus_frame [simp]:
  "ind_network (updateSystemStatus st s) = ind_network s"
  by (simp add: updateSystemStatus_def Let_def split: option.splits)

lemma refreshRecentEvents_frame [simp]:
  "intervals (refreshRecentEvents s) = intervals s"
  "el_recentEvents (refreshRecentEvents s) = el_recentEvents s"
  by (simp_all add: refreshRecentEvents_def)

lemma checkStatus_frame [simp]:
  "intervals (checkStatus s) = intervals s"
  "el_recentEvents (checkStatus s) = el_recentEvents s"
  by (simp_all add: checkStatus_def Let_def)

lemma intervalCallback_frame [simp]:
  "intervals (intervalCallback ch s) = intervals s"
  "el_recentEvents (intervalCallback ch s) = el_recentEvents s"
  by (cases ch; simp)+

lemma intervalCallback_inflight:
  "ch = EventsChannel \<longrightarrow> el_recentEvents s \<noteq> None \<Longrightarrow>
   inflight (intervalCallback ch s) = inflight s @ [ch]"
  by (cases ch) (simp_all add: refreshRecentEvents_def checkStatus_def Let_def)

lemma loaded_page_tables:
  "intervals loaded_page = [(EventsChannel, 30000, 0), (StatusChannel, 60000, 0)]"
  "inflight loaded_page = [StatusChannel]"
  "el_recentEvents loaded_page = Some []"
  by (simp_all add: loaded_page_def init_def startRefreshTimers_def checkStatus_def
      default_config_def sample_page_def Let_def)

subsection \<open>One reconnect sequence\<close>

lemma tryReconnect_cameraConnected [simp]:
  "cameraConnected (tryReconnect cfg now sid s) = cameraConnected s"
  by (simp add: tryReconnect_def Let_def split: option.splits)

lemma tryReconnect_attempts:
  "sid < length (attempts s) \<Longrightarrow> attempts s ! sid < reconnectAttempts cfg \<Longrightarrow>
   attempts (tryReconnect cfg now sid s) = (attempts s)[sid := Suc (attempts s ! sid)]"
  by (simp add: tryReconnect_def Let_def split: option.splits)

lemma tryReconnect_timeouts:
  "sid < length (attempts s) \<Longrightarrow> attempts s ! sid < reconnectAttempts cfg \<Longrightarrow>
   timeouts (tryReconnect cfg now sid s) =
     timeouts s @ [(sid, timeoutDelay cfg * Suc (attempts s ! sid))]"
  by (simp add: tryReconnect_def Let_def split: option.splits)

lemma tryReconnect_exhausted:
  "sid < length (attempts s) \<Longrightarrow> reconnectAttempts cfg \<le> attempts s ! sid \<Longrightarrow>
   tryReconnect cfg now sid s =
     s\<lparr>console := console s @ [ConsoleError ''Failed to reconnect after multiple attempts'']\<rparr>"
  by (simp add: tryReconnect_def)

lemma handleVideoError_starts:
  assumes "0 < reconnectAttempts cfg"
  shows "attempts (handleVideoError cfg now s) = attempts s @ [1]"
    and "timeouts (handleVideoError cfg now s)
           = timeouts s @ [(length (attempts s), timeoutDelay cfg)]"
    and "\<not> cameraConnected (handleVideoError cfg now s)"
  using assms
  by (simp_all add: handleVideoError_def attemptReconnect_def tryReconnect_attempts
      tryReconnect_timeouts nth_append)

text \<open>
  A stream error on a state with no pending timer, then \<open>length ts\<close> expiries with no
  load event between them: the sequence has made \<open>length ts + 1\<close> attempts and its one
  timer is pending.
\<close>

lemma sequence_progress:
  assumes "length ts < reconnectAttempts cfg" and "timeouts s = []"
  shows "attempts (run cfg env ((t0, VideoError) # expiries ts) s) = attempts s @ [Suc (length ts)]
       \<and> timeouts (run cfg env ((t0, VideoError) # expiries ts) s)
           = [(length (attempts s), timeoutDelay cfg * Suc (length ts))]
       \<and> \<not> cameraConnected (run cfg env ((t0, VideoError) # expiries ts) s)"
  using assms
proof (induction ts rule: rev_induct)
  case Nil
  then show ?case
    using handleVideoError_starts [of cfg t0 s] by (simp add: expiries_def)
next
  case (snoc t ts)
  let ?s = "run cfg env ((t0, VideoError) # expiries ts) s"
  from snoc have ih: "attempts ?s = attempts s @ [Suc (length ts)]"
      "timeouts ?s = [(length (attempts s), timeoutDelay cfg * Suc (length ts))]"
      "\<not> cameraConnected ?s"
    by simp_all
  let ?r = "?s\<lparr>timeouts := []\<rparr>"
  have r: "length (attempts s) < length (attempts ?r)"
      "attempts ?r ! length (attempts s) < reconnectAttempts cfg"
    using ih snoc.prems by simp_all
  have st: "step cfg env t (TimeoutFires 0) ?s = tryReconnect cfg t (length (attempts s)) ?r"
    using ih by (simp add: timeoutCallback_def remove_nth_def)
  have eq: "run cfg env ((t0, VideoError) # expiries (ts @ [t])) s
          = step cfg env t (TimeoutFires 0) ?s"
    using run_append [of cfg env "(t0, VideoError) # expiries ts" "[(t, TimeoutFires 0)]" s]
    by (simp add: expiries_snoc)
  show ?case
    unfolding eq st
    using tryReconnect_attempts [OF r, of t] tryReconnect_timeouts [OF r, of t] ih
    by simp
qed

lemma no_timer_no_expiry: "timeouts s = [] \<Longrightarrow> run cfg env (expiries us) s = s"
  by (induction us) (simp_all add: expiries_def)

lemma give_up:
  assumes "timeouts s = [(sid, d)]" "sid < length (attempts s)"
    "reconnectAttempts cfg \<le> attempts s ! sid" "\<not> cameraConnected s"
  shows "run cfg env (expiries (u # us)) s =
     s\<lparr>timeouts := [],
       console := console s @ [ConsoleError ''Failed to reconnect after multiple attempts'']\<rparr>"
proof -
  have "step cfg env u (TimeoutFires 0) s =
     s\<lparr>timeouts := [],
       console := console s @ [ConsoleError ''Failed to reconnect after multiple attempts'']\<rparr>"
    using assms by (simp add: timeoutCallback_def remove_nth_def tryReconnect_exhausted)
  then show ?thesis
    using no_timer_no_expiry [of "step cfg env u (TimeoutFires 0) s" cfg env us]
    by (simp add: expiries_def)
qed

subsection \<open>An exhausted sequence stays exhausted\<close>

lemma subseq_remove_nth: "subseq (remove_nth i xs) xs"
proof -
  have "subseq (drop (Suc i) xs) (drop i xs)"
    by (metis drop_Suc subseq_order.order_refl drop_tl list.sel(2) subseq_Cons' list.exhaust_sel
        tl_drop)
  then have "subseq (take i xs @ drop (Suc i) xs) (take i xs @ drop i xs)"
    by (simp only: subseq_append')
  then show ?thesis by (simp add: remove_nth_def)
qed

lemma tryReconnect_length [simp]:
  "length (attempts (tryReconnect cfg now k s)) = length (attempts s)"
  by (simp add: tryReconnect_def Let_def split: option.splits)

lemma tryReconnect_other:
  "k \<noteq> sid \<Longrightarrow> attempts (tryReconnect cfg now k s) ! sid = attempts s ! sid"
  by (simp add: tryReconnect_def Let_def split: option.splits)

lemma tryReconnect_own_timers:
  "k \<noteq> sid \<Longrightarrow> own_timers sid (tryReconnect cfg now k s) = own_timers sid s"
  by (simp add: tryReconnect_def own_timers_def Let_def split: option.splits)

text \<open>What a handler of a promise chain leaves alone, the chain leaves alone.\<close>

lemma promise_then_proj:
  assumes "\<And>x t. proj (fst (f x t)) = proj t"
  shows "proj (fst (promise_then f p)) = proj (fst p)"
proof (cases p)
  case (Pair s r)
  then show ?thesis by (cases r) (simp_all add: assms)
qed

lemma promise_catch_proj:
  assumes "\<And>e t. proj (fst (h e t)) = proj t"
  shows "proj (fst (promise_catch h p)) = proj (fst p)"
proof (cases p)
  case (Pair s r)
  then show ?thesis by (cases r) (simp_all add: assms)
qed

lemma response_json_fst [simp]: "fst (response_json r t) = t"
  by (cases r) simp_all

lemma updaters_frame [simp]:
  "attempts (updateSystemStatus v t) = attempts t"
  "timeouts (updateSystemStatus v t) = timeouts t"
  "attempts (updateNetworkStatus v t) = attempts t"
  "timeouts (updateNetworkStatus v t) = timeouts t"
  "attempts (updateRecentEventsDisplay env now evs t) = attempts t"
  "timeouts (updateRecentEventsDisplay env now evs t) = timeouts t"
  by (simp_all add: updateSystemStatus_def updateNetworkStatus_def updateRecentEventsDisplay_def
      Let_def split: option.splits)

lemma checkStatus_settled_frame [simp]:
  "attempts (fst (checkStatus_settled outcome s)) = attempts s"
  "timeouts (fst (checkStatus_settled outcome s)) = timeouts s"
proof -
  have d: "attempts (fst (checkStatus_data j t)) = attempts t"
    "timeouts (fst (checkStatus_data j t)) = timeouts t" for j t
    by (cases j; simp)+
  show "attempts (fst (checkStatus_settled outcome s)) = attempts s"
    unfolding checkStatus_settled_def
    by (simp add: promise_catch_proj [where proj = attempts]
        promise_then_proj [where proj = attempts] d checkStatus_error_def)
  show "timeouts (fst (checkStatus_settled outcome s)) = timeouts s"
    unfolding checkStatus_settled_def
    by (simp add: promise_catch_proj [where proj = timeouts]
        promise_then_proj [where proj = timeouts] d checkStatus_error_def)
qed

lemma refreshRecentEvents_settled_frame [simp]:
  "attempts (fst (refreshRecentEvents_settled env now outcome s)) = attempts s"
  "timeouts (fst (refreshRecentEvents_settled env now outcome s)) = timeouts s"
proof -
  have d: "attempts (fst (refreshRecentEvents_data env now j t)) = attempts t"
    "timeouts (fst (refreshRecentEvents_data env now j t)) = timeouts t" for j t
    by (cases j; simp)+
  show "attempts (fst (refreshRecentEvents_settled env now outcome s)) = attempts s"
    unfolding refreshRecentEvents_settled_def
    by (simp add: promise_catch_proj [where proj = attempts]
        promise_then_proj [where proj = attempts] d refreshRecentEvents_error_def)
  show "timeouts (fst (refreshRecentEvents_settled env now outcome s)) = timeouts s"
    unfolding refreshRecentEvents_settled_def
    by (simp add: promise_catch_proj [where proj = timeouts]
        promise_then_proj [where proj = timeouts] d refreshRecentEvents_error_def)
qed

lemma pollers_frame [simp]:
  "attempts (checkStatus s) = attempts s"
  "timeouts (checkStatus s) = timeouts s"
  "attempts (refreshRecentEvents s) = attempts s"
  "timeouts (refreshRecentEvents s) = timeouts s"
  by (simp_all add: checkStatus_def refreshRecentEvents_def Let_def)

text \<open>
  Once a sequence has used up its attempts, no event of the loop changes its counter,
  and none arms a timer for it: its pending timers after the event are among those from
  before, in their order.
\<close>

lemma exhausted_step:
  assumes "sid < length (attempts s)" and "reconnectAttempts cfg \<le> attempts s ! sid"
  shows "sid < length (attempts (step cfg env now ev s))
       \<and> attempts (step cfg env now ev s) ! sid = attempts s ! sid
       \<and> subseq (own_timers sid (step cfg env now ev s)) (own_timers sid s)"
proof (cases ev)
  case VideoError
  let ?t = "(updateCameraStatus False
          (s\<lparr>cameraConnected := False,
             console := console s @ [ConsoleError ''Video feed error:'']\<rparr>))
          \<lparr>attempts := attempts s @ [0]\<rparr>"
  have st: "step cfg env now ev s = tryReconnect cfg now (length (attempts s)) ?t"
    by (simp add: VideoError handleVideoError_def attemptReconnect_def)
  have ne: "length (attempts s) \<noteq> sid" using assms(1) by simp
  have "own_timers sid ?t = own_timers sid s" by (simp add: own_timers_def)
  with assms ne show ?thesis
    unfolding st by (simp add: tryReconnect_other tryReconnect_own_timers nth_append)
next
  case VideoLoad
  then show ?thesis using assms by (simp add: handleVideoLoad_def own_timers_def)
next
  case (TimeoutFires i)
  show ?thesis
  proof (cases "i < length (timeouts s) \<and> \<not> cameraConnected s")
    case False
    then have "step cfg env now ev s = s \<or>
               step cfg env now ev s = s\<lparr>timeouts := remove_nth i (timeouts s)\<rparr>"
      by (auto simp: TimeoutFires timeoutCallback_def)
    then show ?thesis
      using assms by (auto simp: own_timers_def subseq_remove_nth)
  next
    case True
    let ?k = "fst (timeouts s ! i)"
    let ?t = "s\<lparr>timeouts := remove_nth i (timeouts s)\<rparr>"
    have st: "step cfg env now ev s = tryReconnect cfg now ?k ?t"
      using True by (simp add: TimeoutFires timeoutCallback_def)
    have sub: "subseq (own_timers sid ?t) (own_timers sid s)"
      by (simp add: own_timers_def subseq_remove_nth)
    show ?thesis
    proof (cases "?k = sid")
      case True
      have "tryReconnect cfg now sid ?t =
          ?t\<lparr>console := console ?t
                 @ [ConsoleError ''Failed to reconnect after multiple attempts'']\<rparr>"
        using assms by (intro tryReconnect_exhausted) simp_all
      then show ?thesis
        unfolding st True using assms sub by (simp add: own_timers_def)
    next
      case False
      then show ?thesis
        unfolding st using assms sub
        by (simp add: tryReconnect_other tryReconnect_own_timers)
    qed
  qed
next
  case (IntervalFires i)
  then show ?thesis
    using assms by (cases "fst (intervals s ! i)") (simp_all add: own_timers_def)
next
  case (VisibilityChange h)
  then show ?thesis
    using assms by (simp add: handleVisibilityChange_def own_timers_def)
next
  case (FetchSettles i outcome)
  then show ?thesis
    using assms by (simp add: own_timers_def split: channel.splits)
qed

lemma exhausted_run:
  assumes "sid < length (attempts s)" and "reconnectAttempts cfg \<le> attempts s ! sid"
  shows "sid < length (attempts (run cfg env es s))
       \<and> attempts (run cfg env es s) ! sid = attempts s ! sid
       \<and> subseq (own_timers sid (run cfg env es s)) (own_timers sid s)"
  using assms
proof (induction es arbitrary: s)
  case Nil
  then show ?case by simp
next
  case (Cons e es)
  let ?t = "step cfg env (fst e) (snd e) s"
  note h = exhausted_step [OF Cons.prems, of env "fst e" "snd e"]
  then have "sid < length (attempts ?t)" "reconnectAttempts cfg \<le> attempts ?t ! sid"
    using Cons.prems by simp_all
  from Cons.IH [OF this] h show ?case
    by (auto intro: subseq_order.order_trans)
qed

subsection \<open>Reconnection claims\<close>

text \<open>
  C2. The \<open>k\<close>-th attempt of one reconnect sequence arms its single-shot timer with
  delay \<open>timeoutDelay * k\<close>, for every \<open>k\<close> from 1 to \<open>reconnectAttempts\<close>. First
  for one call of \<^verbatim>\<open>tryReconnect\<close> in any state: while the counter of the sequence is
  below the maximum, the call raises it to \<open>k\<close> and arms one timer of that delay. Then
  for a whole sequence: it starts at a stream error, and \<open>length ts\<close> expiries later,
  with no load event between, it is at attempt \<open>k = length ts + 1\<close> and the timer it
  holds has that delay.
\<close>

theorem backoff_delay:
  "(sid < length (attempts s) \<and> attempts s ! sid < reconnectAttempts cfg \<longrightarrow>
      attempts (tryReconnect cfg now sid s) ! sid = attempts s ! sid + 1 \<and>
      timeouts (tryReconnect cfg now sid s)
        = timeouts s @ [(sid, timeoutDelay cfg * (attempts s ! sid + 1))])
   \<and> (length ts < reconnectAttempts cfg \<and> timeouts s = [] \<longrightarrow>
      attempts (run cfg env ((t0, VideoError) # expiries ts) s) ! length (attempts s)
        = length ts + 1 \<and>
      timeouts (run cfg env ((t0, VideoError) # expiries ts) s)
        = [(length (attempts s), timeoutDelay cfg * (length ts + 1))])"
  using sequence_progress [of ts cfg s env t0]
    tryReconnect_attempts [of sid s cfg now] tryReconnect_timeouts [of sid s cfg now]
  by simp

text \<open>With the default configuration the three delays are 2000, 4000 and 6000.\<close>

theorem backoff_delay_witness:
  "timeouts (run default_config sample_env [(0, VideoError)] sample_page) = [(0, 2000)] \<and>
   timeouts (run default_config sample_env [(0, VideoError), (2000, TimeoutFires 0)] sample_page)
     = [(0, 4000)] \<and>
   timeouts (run default_config sample_env
              [(0, VideoError), (2000, TimeoutFires 0), (6000, TimeoutFires 0)] sample_page)
     = [(0, 6000)] \<and>
   timeouts (tryReconnect default_config 2000 0 (sample_page\<lparr>attempts := [1]\<rparr>)) = [(0, 4000)]"
proof -
  have c: "reconnectAttempts default_config = 3" "timeoutDelay default_config = 2000"
    by (simp_all add: default_config_def)
  have p: "timeouts sample_page = []" "attempts sample_page = []"
    by (simp_all add: sample_page_def)
  have r1: "timeouts (run default_config sample_env [(0, VideoError)] sample_page) = [(0, 2000)]"
    using backoff_delay [of 0 sample_page default_config 0 "[]" sample_env 0]
    by (simp add: expiries_def c p)
  have r2: "timeouts (run default_config sample_env [(0, VideoError), (2000, TimeoutFires 0)]
              sample_page) = [(0, 4000)]"
    using backoff_delay [of 0 sample_page default_config 0 "[2000]" sample_env 0]
    by (simp add: expiries_def c p)
  have r3: "timeouts (run default_config sample_env
              [(0, VideoError), (2000, TimeoutFires 0), (6000, TimeoutFires 0)] sample_page)
            = [(0, 6000)]"
    using backoff_delay [of 0 sample_page default_config 0 "[2000, 6000]" sample_env 0]
    by (simp add: expiries_def c p)
  have r4: "timeouts (tryReconnect default_config 2000 0 (sample_page\<lparr>attempts := [1]\<rparr>))
            = [(0, 4000)]"
    using backoff_delay [of 0 "sample_page\<lparr>attempts := [1]\<rparr>" default_config 2000 "[9]"
        sample_env 0]
    by (simp add: c p)
  from r1 r2 r3 r4 show ?thesis by blast
qed

text \<open>
  C3, as the script has it. A sequence that has made exactly \<open>reconnectAttempts\<close>
  attempts has its counter at the maximum; a stream error followed by that many attempts
  with no load event between them reaches this, and the expiries that follow then change
  the state by the removal of the fired timer and one console error only. In any state
  and whatever events \<open>es\<close> follow, such a sequence arms no further timer and reloads
  the video no more: its retry step only logs
  \<^verbatim>\<open>Failed to reconnect after multiple attempts\<close>, its counter stays at the maximum
  and its pending timers are among those it had. The script keeps no Failed state, and
  the condition is not terminal for the monitor: a stream error after it starts a new
  sequence with a fresh counter and its own timer.
\<close>

theorem retries_exhausted:
  "(reconnectAttempts cfg = Suc (length ts) \<and> timeouts s0 = [] \<longrightarrow>
      attempts (run cfg env ((t0, VideoError) # expiries ts) s0) ! length (attempts s0)
        = reconnectAttempts cfg
      \<and> run cfg env (expiries (u # us)) (run cfg env ((t0, VideoError) # expiries ts) s0)
          = (run cfg env ((t0, VideoError) # expiries ts) s0)
              \<lparr>timeouts := [],
               console := console (run cfg env ((t0, VideoError) # expiries ts) s0)
                  @ [ConsoleError ''Failed to reconnect after multiple attempts'']\<rparr>)
   \<and> (sid < length (attempts s) \<and> attempts s ! sid = reconnectAttempts cfg \<longrightarrow>
        tryReconnect cfg now sid (run cfg env es s)
          = (run cfg env es s)
              \<lparr>console := console (run cfg env es s)
                 @ [ConsoleError ''Failed to reconnect after multiple attempts'']\<rparr>
      \<and> attempts (run cfg env es s) ! sid = reconnectAttempts cfg
      \<and> subseq (own_timers sid (run cfg env es s)) (own_timers sid s)
      \<and> (0 < reconnectAttempts cfg \<longrightarrow>
            attempts (step cfg env now VideoError (run cfg env es s))
              = attempts (run cfg env es s) @ [1]
          \<and> timeouts (step cfg env now VideoError (run cfg env es s))
              = timeouts (run cfg env es s)
                  @ [(length (attempts (run cfg env es s)), timeoutDelay cfg)]))"
proof (intro conjI impI)
  assume h: "reconnectAttempts cfg = Suc (length ts) \<and> timeouts s0 = []"
  let ?s = "run cfg env ((t0, VideoError) # expiries ts) s0"
  from h have lt: "length ts < reconnectAttempts cfg" and t0: "timeouts s0 = []"
    by simp_all
  note p = sequence_progress [OF lt t0, of env t0]
  show a: "attempts ?s ! length (attempts s0) = reconnectAttempts cfg"
    using p h by simp
  have t: "timeouts ?s = [(length (attempts s0), timeoutDelay cfg * Suc (length ts))]"
    and c: "\<not> cameraConnected ?s"
    using p by blast+
  have l: "length (attempts s0) < length (attempts ?s)"
    using p by simp
  have e: "reconnectAttempts cfg \<le> attempts ?s ! length (attempts s0)"
    using a by simp
  show "run cfg env (expiries (u # us)) ?s
          = ?s\<lparr>timeouts := [],
               console := console ?s
                  @ [ConsoleError ''Failed to reconnect after multiple attempts'']\<rparr>"
    by (rule give_up [OF t l e c])
next
  assume h: "sid < length (attempts s) \<and> attempts s ! sid = reconnectAttempts cfg"
  then have l: "sid < length (attempts s)" and e: "reconnectAttempts cfg \<le> attempts s ! sid"
    by simp_all
  note f = exhausted_run [OF l e, of env es]
  from f h show a: "attempts (run cfg env es s) ! sid = reconnectAttempts cfg" by simp
  from f show "subseq (own_timers sid (run cfg env es s)) (own_timers sid s)" by simp
  from f a show "tryReconnect cfg now sid (run cfg env es s)
          = (run cfg env es s)
              \<lparr>console := console (run cfg env es s)
                 @ [ConsoleError ''Failed to reconnect after multiple attempts'']\<rparr>"
    by (intro tryReconnect_exhausted) simp_all
next
  assume "0 < reconnectAttempts cfg"
  then show "attempts (step cfg env now VideoError (run cfg env es s))
              = attempts (run cfg env es s) @ [1]"
    by (simp add: handleVideoError_starts)
next
  assume "0 < reconnectAttempts cfg"
  then show "timeouts (step cfg env now VideoError (run cfg env es s))
              = timeouts (run cfg env es s)
                  @ [(length (attempts (run cfg env es s)), timeoutDelay cfg)]"
    by (simp add: handleVideoError_starts)
qed

theorem retries_exhausted_witness:
  "reconnectAttempts default_config = Suc (length [2000::nat, 6000]) \<and>
   timeouts sample_page = [] \<and>
   0 < reconnectAttempts default_config \<and>
   attempts (run default_config sample_env ((0, VideoError) # expiries [2000, 6000]) sample_page)
     = [3] \<and>
   timeouts (run default_config sample_env (expiries [12000, 20000])
              (run default_config sample_env ((0, VideoError) # expiries [2000, 6000])
                 sample_page)) = [] \<and>
   el_videoFeed (run default_config sample_env (expiries [12000, 20000])
              (run default_config sample_env ((0, VideoError) # expiries [2000, 6000])
                 sample_page))
     = el_videoFeed (run default_config sample_env ((0, VideoError) # expiries [2000, 6000])
                 sample_page) \<and>
   attempts (run default_config sample_env [(12000, TimeoutFires 0), (12500, VideoLoad)]
              (run default_config sample_env ((0, VideoError) # expiries [2000, 6000])
                 sample_page)) ! 0 = 3 \<and>
   attempts (step default_config sample_env 13000 VideoError
              (run default_config sample_env [(12000, TimeoutFires 0), (12500, VideoLoad)]
                (run default_config sample_env ((0, VideoError) # expiries [2000, 6000])
                   sample_page)))
     = attempts (run default_config sample_env [(12000, TimeoutFires 0), (12500, VideoLoad)]
                  (run default_config sample_env ((0, VideoError) # expiries [2000, 6000])
                     sample_page)) @ [1]"
proof -
  let ?s = "run default_config sample_env ((0, VideoError) # expiries [2000, 6000]) sample_page"
  let ?es = "[(12000, TimeoutFires 0), (12500, VideoLoad)]"
  have c: "reconnectAttempts default_config = Suc (length [2000::nat, 6000])"
    and m: "reconnectAttempts default_config = 3"
    and z: "0 < reconnectAttempts default_config"
    by (simp_all add: default_config_def)
  have p: "timeouts sample_page = []" "attempts sample_page = []"
    by (simp_all add: sample_page_def)
  have lt: "length [2000::nat, 6000] < reconnectAttempts default_config"
    by (simp add: default_config_def)
  have a: "attempts ?s = [3]"
    using sequence_progress [OF lt p(1), of sample_env 0] by (simp add: p)
  have h: "0 < length (attempts ?s) \<and> attempts ?s ! 0 = reconnectAttempts default_config"
    using a m by simp
  note r = retries_exhausted [of default_config "[2000, 6000]" sample_page sample_env 0
      12000 "[20000]" 0 ?s 13000 ?es]
  from r c p(1) have g: "run default_config sample_env (expiries [12000, 20000]) ?s
        = ?s\<lparr>timeouts := [],
              console := console ?s
                @ [ConsoleError ''Failed to reconnect after multiple attempts'']\<rparr>"
    by blast
  from r h have k: "attempts (run default_config sample_env ?es ?s) ! 0
        = reconnectAttempts default_config"
    by blast
  from r h z have n: "attempts (step default_config sample_env 13000 VideoError
                         (run default_config sample_env ?es ?s))
        = attempts (run default_config sample_env ?es ?s) @ [1]"
    by blast
  have "timeouts (run default_config sample_env (expiries [12000, 20000]) ?s) = []"
    "el_videoFeed (run default_config sample_env (expiries [12000, 20000]) ?s) = el_videoFeed ?s"
    unfolding g by simp_all
  with c p(1) z a k n m show ?thesis by simp
qed

text \<open>
  C3 as stated fails: on the page where the sequence has given up (counter 3, no timer
  pending, camera not connected), the next stream error starts a second sequence, which
  arms a timer and reloads the video.
\<close>

theorem failed_not_terminal_counterexample:
  "attempts given_up_page = [3] \<and> timeouts given_up_page = [] \<and>
   \<not> cameraConnected given_up_page \<and>
   el_videoFeed given_up_page = Some ''/video_feed?t=6000'' \<and>
   attempts (step default_config sample_env 13000 VideoError given_up_page) = [3, 1] \<and>
   timeouts (step default_config sample_env 13000 VideoError given_up_page) = [(1, 2000)] \<and>
   el_videoFeed (step default_config sample_env 13000 VideoError given_up_page)
     = Some ''/video_feed?t=13000''"
  by (simp add: given_up_page_def expiries_def handleVideoError_def attemptReconnect_def
      tryReconnect_def timeoutCallback_def remove_nth_def updateCameraStatus_def
      sample_page_def default_config_def Let_def dec.simps char_of_def bit_Suc_0_iff)

text \<open>
  C9. A retry timer that fires when \<^verbatim>\<open>cameraConnected\<close> is true does nothing: its
  callback returns the state as it found it, so no counter moves, the video source is not
  reassigned and no timer is armed. In the event loop the only change is that the fired
  one-shot timer has left the timer table; nothing cancels it beforehand.
\<close>

theorem stale_timer_noop:
  "cameraConnected s \<Longrightarrow>
     timeoutCallback cfg now sid s = s \<and>
     (i < length (timeouts s) \<longrightarrow>
        step cfg env now (TimeoutFires i) s = s\<lparr>timeouts := remove_nth i (timeouts s)\<rparr>)"
  by (simp add: timeoutCallback_def)

theorem stale_timer_noop_witness:
  "cameraConnected (run default_config sample_env [(0, VideoError), (500, VideoLoad)] sample_page) \<and>
   timeouts (run default_config sample_env [(0, VideoError), (500, VideoLoad)] sample_page)
     = [(0, 2000)] \<and>
   step default_config sample_env 2000 (TimeoutFires 0)
     (run default_config sample_env [(0, VideoError), (500, VideoLoad)] sample_page)
   = (run default_config sample_env [(0, VideoError), (500, VideoLoad)] sample_page)
       \<lparr>timeouts := []\<rparr>"
proof -
  let ?s = "run default_config sample_env [(0, VideoError), (500, VideoLoad)] sample_page"
  have c: "cameraConnected ?s"
    by (simp add: handleVideoLoad_def)
  have d: "0 < reconnectAttempts default_config" "timeoutDelay default_config = 2000"
    by (simp_all add: default_config_def)
  have t: "timeouts ?s = [(0, 2000)]"
    by (simp add: handleVideoLoad_def handleVideoError_starts [OF d(1)] d(2) sample_page_def)
  from stale_timer_noop [OF c, of default_config 2000 0 0 sample_env] t
  show ?thesis using c by (simp add: remove_nth_def)
qed

text \<open>
  C4, as the script has it. A stream error always starts a new retry sequence with a
  counter of its own, also while another sequence is in flight: \<^verbatim>\<open>handleVideoError\<close>
  calls \<^verbatim>\<open>attemptReconnect\<close> with no look at the state, the new closure makes its first
  attempt at once and arms its own timer, and the counters and timers of the sequences
  already in flight stay as they are.
\<close>

theorem error_starts_sequence:
  "0 < reconnectAttempts cfg \<Longrightarrow>
   attempts (step cfg env now VideoError s) = attempts s @ [1] \<and>
   timeouts (step cfg env now VideoError s)
     = timeouts s @ [(length (attempts s), timeoutDelay cfg)]"
  using handleVideoError_starts [of cfg now s] by simp

theorem error_starts_sequence_witness:
  "0 < reconnectAttempts default_config \<and>
   attempts (step default_config sample_env 100 VideoError
              (step default_config sample_env 0 VideoError sample_page)) = [1, 1] \<and>
   timeouts (step default_config sample_env 100 VideoError
              (step default_config sample_env 0 VideoError sample_page))
     = [(0, 2000), (1, 2000)]"
proof -
  have c: "0 < reconnectAttempts default_config"
    by (simp add: default_config_def)
  have p: "attempts sample_page = []" "timeouts sample_page = []"
    by (simp_all add: sample_page_def)
  note s1 = error_starts_sequence [OF c, of sample_env 0 sample_page]
  note s2 = error_starts_sequence [OF c, of sample_env 100
      "step default_config sample_env 0 VideoError sample_page"]
  show ?thesis
    using c s1 s2 by (simp add: p default_config_def)
qed

text \<open>
  C4 as stated fails: a second stream error 100 ms after the first, while the first
  sequence waits on its timer, leaves two sequences, each with its own counter and its
  own pending timer.
\<close>

theorem parallel_sequences_counterexample:
  "attempts (run default_config sample_env [(0, VideoError), (100, VideoError)] sample_page)
     = [1, 1] \<and>
   timeouts (run default_config sample_env [(0, VideoError), (100, VideoError)] sample_page)
     = [(0, 2000), (1, 2000)]"
proof -
  have c: "0 < reconnectAttempts default_config" "timeoutDelay default_config = 2000"
    by (simp_all add: default_config_def)
  have p: "attempts sample_page = []" "timeouts sample_page = []"
    by (simp_all add: sample_page_def)
  show ?thesis
    by (simp add: handleVideoError_starts [OF c(1)] c(2) p)
qed

subsection \<open>Polling claims\<close>

text \<open>
  C1, as the script has it. A poll tick always issues a new request on its channel,
  whether or not earlier requests of that channel are outstanding (for the events
  channel: whenever the page has the recent-events element); no tick is skipped, so
  after \<open>length ts\<close> ticks that many more requests are outstanding.
\<close>

theorem tick_never_skipped:
  assumes "i < length (intervals s)" and "fst (intervals s ! i) = ch"
    and "ch = EventsChannel \<longrightarrow> el_recentEvents s \<noteq> None"
  shows "inflight (run cfg env (ticks i ts) s) = inflight s @ replicate (length ts) ch"
  using assms
proof (induction ts arbitrary: s)
  case Nil
  then show ?case by (simp add: ticks_def)
next
  case (Cons t ts)
  let ?s = "intervalCallback ch s"
  have "inflight (run cfg env (ticks i ts) ?s) = inflight ?s @ replicate (length ts) ch"
    using Cons.prems by (intro Cons.IH) simp_all
  moreover have "run cfg env (ticks i (t # ts)) s = run cfg env (ticks i ts) ?s"
    using Cons.prems by (simp add: ticks_def)
  ultimately show ?case
    using intervalCallback_inflight [OF Cons.prems(3)] by (simp add: replicate_app_Cons_same)
qed

theorem tick_never_skipped_witness:
  "0 < length (intervals loaded_page) \<and> fst (intervals loaded_page ! 0) = EventsChannel \<and>
   el_recentEvents loaded_page \<noteq> None \<and>
   inflight (run default_config sample_env (ticks 0 [30000, 60000]) loaded_page)
     = [StatusChannel, EventsChannel, EventsChannel]"
  using tick_never_skipped [of 0 loaded_page EventsChannel default_config sample_env "[30000, 60000]"]
  by (simp add: loaded_page_tables)

text \<open>
  C1 as stated fails: the status request of \<^verbatim>\<open>init\<close> is still outstanding when the
  status timer ticks at 60000, and the tick issues a second one.
\<close>

theorem tick_skipped_counterexample:
  "StatusChannel \<in> set (inflight loaded_page) \<and>
   inflight (step default_config sample_env 60000 (IntervalFires 1) loaded_page)
     = [StatusChannel, StatusChannel]"
  by (simp add: loaded_page_tables checkStatus_def Let_def)

text \<open>
  C6, as the script has it. When the page becomes visible, exactly one status check and,
  when the page has the recent-events element, exactly one event refresh are issued at
  once, whatever the state and however long the page was hidden. No visibility change
  cancels or re-arms a periodic timer, and becoming hidden changes nothing at all.
\<close>

theorem visible_again:
  "inflight (handleVisibilityChange False s)
     = inflight s @ (if el_recentEvents s = None then [] else [EventsChannel]) @ [StatusChannel]
   \<and> intervals (handleVisibilityChange hidden s) = intervals s
   \<and> handleVisibilityChange True s = s"
  by (simp add: handleVisibilityChange_def checkStatus_def refreshRecentEvents_def Let_def)

text \<open>
  C6 as stated fails: hidden at 1000, the page keeps both timers, the events timer
  ticks at 30000 and issues a request, and after the page is visible again at 500000
  both timers are still the ones armed at time 0.
\<close>

theorem timers_restart_counterexample:
  "intervals (step default_config sample_env 1000 (VisibilityChange True) loaded_page)
     = [(EventsChannel, 30000, 0), (StatusChannel, 60000, 0)] \<and>
   inflight (run default_config sample_env
      [(1000, VisibilityChange True), (30000, IntervalFires 0)] loaded_page)
     = [StatusChannel, EventsChannel] \<and>
   intervals (run default_config sample_env
      [(1000, VisibilityChange True), (500000, VisibilityChange False)] loaded_page)
     = [(EventsChannel, 30000, 0), (StatusChannel, 60000, 0)]"
  by (simp add: handleVisibilityChange_def checkStatus_def refreshRecentEvents_def Let_def
      loaded_page_tables)

subsection \<open>Status check claims\<close>

lemma online_page_indicators:
  "ind_system online_page =
     Some \<lparr>classList = [''status-indicator'', ''system-status'', ''status-online''],
           title = Some ''System Online''\<rparr>"
  "ind_network online_page =
     Some \<lparr>classList = [''status-indicator'', ''network-status'', ''status-online''],
           title = Some ''Network Connected''\<rparr>"
  by (simp_all add: online_page_def checkStatus_settled_def status_reply_def sample_page_def
      updateSystemStatus_def updateNetworkStatus_def classList_add_def classList_remove_def
      setAttribute_title_def)

lemma network_offline:
  "ind_network s = Some i \<Longrightarrow>
   \<exists>j. ind_network (updateNetworkStatus (JBool False) s) = Some j
     \<and> ''status-offline'' \<in> set (classList j) \<and> ''status-online'' \<notin> set (classList j)
     \<and> title j = Some ''Network Disconnected''"
  by (simp add: updateNetworkStatus_def classList_add_def classList_remove_def
      setAttribute_title_def)

text \<open>A rejected request, a body that does not parse and a \<^verbatim>\<open>null\<close> body all end in
  the \<^verbatim>\<open>catch\<close> handler.\<close>

lemma checkStatus_settled_failure:
  "outcome \<in> {Rejected e, Fulfilled Body_malformed, Fulfilled (Body_ok JNull)} \<Longrightarrow>
   \<exists>e'. checkStatus_settled outcome s = checkStatus_error e' s"
  by (auto simp: checkStatus_settled_def checkStatus_error_def)

text \<open>
  The \<^verbatim>\<open>catch\<close> handler passes \<^verbatim>\<open>false\<close> to \<^verbatim>\<open>updateSystemStatus\<close>, whose
  \<^verbatim>\<open>switch\<close> knows the three status strings only: on the sample page the system
  indicator loses \<^verbatim>\<open>status-online\<close> and gains no class, and keeps its title.
\<close>

lemma rejected_status_clears_system:
  "ind_system (fst (checkStatus_settled (Rejected ''Failed to fetch'') online_page))
     = Some \<lparr>classList = [''status-indicator'', ''system-status''],
             title = Some ''System Online''\<rparr>"
  by (simp add: checkStatus_settled_def checkStatus_error_def updateSystemStatus_def
      updateNetworkStatus_def online_page_indicators classList_remove_def
      split: option.splits)

text \<open>
  C5, as the script has it. When the status request rejects (or its body does not parse,
  or is \<^verbatim>\<open>null\<close>), the network indicator, if the page has one, is set to offline with
  the title \<^verbatim>\<open>Network Disconnected\<close>, and the promise of the chain is fulfilled: no
  error leaves the poller. When the response is a non-success object, the chain is
  fulfilled as well and the state, both indicators included, is left as it was.
\<close>

theorem failed_status_check:
  "(outcome \<in> {Rejected e, Fulfilled Body_malformed, Fulfilled (Body_ok JNull)} \<longrightarrow>
      snd (checkStatus_settled outcome s) = Fulfilled () \<and>
      (\<forall>i. ind_network s = Some i \<longrightarrow>
         (\<exists>j. ind_network (fst (checkStatus_settled outcome s)) = Some j
            \<and> ''status-offline'' \<in> set (classList j) \<and> ''status-online'' \<notin> set (classList j)
            \<and> title j = Some ''Network Disconnected'')))
   \<and> (\<not> truthy (success d) \<longrightarrow>
        checkStatus_settled (Fulfilled (Body_ok (JObj d))) s = (s, Fulfilled ()))"
proof (intro conjI impI allI)
  assume o: "outcome \<in> {Rejected e, Fulfilled Body_malformed, Fulfilled (Body_ok JNull)}"
  then obtain e' where eq: "checkStatus_settled outcome s = checkStatus_error e' s"
    using checkStatus_settled_failure by blast
  show "snd (checkStatus_settled outcome s) = Fulfilled ()"
    by (simp add: eq checkStatus_error_def)
  fix i assume "ind_network s = Some i"
  then show "\<exists>j. ind_network (fst (checkStatus_settled outcome s)) = Some j
            \<and> ''status-offline'' \<in> set (classList j) \<and> ''status-online'' \<notin> set (classList j)
            \<and> title j = Some ''Network Disconnected''"
    unfolding eq checkStatus_error_def fst_conv
    by (intro network_offline) simp
next
  assume "\<not> truthy (success d)"
  then show "checkStatus_settled (Fulfilled (Body_ok (JObj d))) s = (s, Fulfilled ())"
    by (simp add: checkStatus_settled_def)
qed

theorem failed_status_check_witness:
  "Rejected ''Failed to fetch''
     \<in> {Rejected ''Failed to fetch'', Fulfilled Body_malformed, Fulfilled (Body_ok JNull)} \<and>
   ind_network online_page
     = Some \<lparr>classList = [''status-indicator'', ''network-status'', ''status-online''],
             title = Some ''Network Connected''\<rparr> \<and>
   snd (checkStatus_settled (Rejected ''Failed to fetch'') online_page) = Fulfilled () \<and>
   ind_network (fst (checkStatus_settled (Rejected ''Failed to fetch'') online_page))
     = Some \<lparr>classList = [''status-indicator'', ''network-status'', ''status-offline''],
             title = Some ''Network Disconnected''\<rparr> \<and>
   \<not> truthy (success (status_reply False)) \<and>
   checkStatus_settled (Fulfilled (Body_ok (JObj (status_reply False)))) online_page
     = (online_page, Fulfilled ())"
proof -
  have n: "ind_network (fst (checkStatus_settled (Rejected ''Failed to fetch'') online_page))
     = Some \<lparr>classList = [''status-indicator'', ''network-status'', ''status-offline''],
             title = Some ''Network Disconnected''\<rparr>"
    by (simp add: checkStatus_settled_def checkStatus_error_def updateNetworkStatus_def
        online_page_indicators classList_add_def classList_remove_def setAttribute_title_def)
  from failed_status_check [of "Rejected ''Failed to fetch''" "''Failed to fetch''" online_page
      "status_reply False"]
  show ?thesis
    using n by (simp add: online_page_indicators status_reply_def)
qed

text \<open>
  C5 as stated fails: a reply with \<^verbatim>\<open>success: false\<close> leaves the system indicator
  online and the network indicator connected.
\<close>

theorem failed_status_check_counterexample:
  "\<not> truthy (success (status_reply False)) \<and>
   ind_system (fst (checkStatus_settled (Fulfilled (Body_ok (JObj (status_reply False))))
                      online_page))
     = Some \<lparr>classList = [''status-indicator'', ''system-status'', ''status-online''],
             title = Some ''System Online''\<rparr> \<and>
   ind_network (fst (checkStatus_settled (Fulfilled (Body_ok (JObj (status_reply False))))
                      online_page))
     = Some \<lparr>classList = [''status-indicator'', ''network-status'', ''status-online''],
             title = Some ''Network Connected''\<rparr>"
  by (simp add: checkStatus_settled_def status_reply_def online_page_indicators)

subsection \<open>Event feed claims\<close>

lemma updateRecentEventsDisplay_feed:
  "el_recentEvents s \<noteq> None \<Longrightarrow> evs \<noteq> [] \<Longrightarrow>
   el_recentEvents (updateRecentEventsDisplay env now (Some evs) s)
     = Some (map (renderEvent env now) evs)"
  by (simp add: updateRecentEventsDisplay_def Let_def)

lemma feed_page_items:
  "el_recentEvents feed_page =
     Some [\<lparr>item_time = ''Today, 8:15:00 AM'', item_name = ''J. Doe'',
            badge_class = ''bg-success'', badge_text = ''Clock In''\<rparr>,
           \<lparr>item_time = ''1/14/2025, 5:30:00 PM'', item_name = ''A. Smith'',
            badge_class = ''bg-secondary'', badge_text = ''Clock Out''\<rparr>,
           \<lparr>item_time = ''Today, 8:15:00 AM'', item_name = ''J. Doe'',
            badge_class = ''bg-secondary'', badge_text = ''Clock Out''\<rparr>]"
  "recentEvents feed_page = Some sample_events"
  by (simp_all add: feed_page_def refreshRecentEvents_settled_def logs_reply_def
      updateRecentEventsDisplay_def sample_page_def sample_events_def renderEvent_def
      sample_env_def Let_def)

text \<open>
  C7, as the script has it. The feed is the list of the records rendered one by one, in
  the order received. A record whose parsed date has the date string of the current
  time gets the label \<^verbatim>\<open>Today, \<close> followed by its time, any other record the full
  date-time label. The direction \<^verbatim>\<open>IN\<close> renders the affirmative badge
  \<^verbatim>\<open>Clock In\<close>; every other direction, \<^verbatim>\<open>OUT\<close> or not, renders the neutral badge
  \<^verbatim>\<open>Clock Out\<close>.
\<close>

theorem event_projection:
  assumes "el_recentEvents s \<noteq> None" and "i < length evs"
  shows "el_recentEvents (updateRecentEventsDisplay env now (Some evs) s)
           = Some (map (renderEvent env now) evs)
     \<and> item_time (renderEvent env now (evs ! i)) =
         (if toDateString env (parseDate env (Date (evs ! i) @ '' '' @ Time (evs ! i)))
               = toDateString env (TimeValue (int now))
          then ''Today, ''
                 @ toLocaleTimeString env (parseDate env (Date (evs ! i) @ '' '' @ Time (evs ! i)))
          else toLocaleString env (parseDate env (Date (evs ! i) @ '' '' @ Time (evs ! i))))
     \<and> (Event (evs ! i) = ''IN'' \<longrightarrow>
          badge_class (renderEvent env now (evs ! i)) = ''bg-success''
          \<and> badge_text (renderEvent env now (evs ! i)) = ''Clock In'')
     \<and> (Event (evs ! i) \<noteq> ''IN'' \<longrightarrow>
          badge_class (renderEvent env now (evs ! i)) = ''bg-secondary''
          \<and> badge_text (renderEvent env now (evs ! i)) = ''Clock Out'')"
proof -
  from assms(2) have "evs \<noteq> []" by auto
  with assms(1) have "el_recentEvents (updateRecentEventsDisplay env now (Some evs) s)
     = Some (map (renderEvent env now) evs)"
    by (rule updateRecentEventsDisplay_feed)
  then show ?thesis
    by (simp add: renderEvent_def Let_def)
qed

theorem event_projection_witness:
  "el_recentEvents sample_page \<noteq> None \<and> 0 < length sample_events \<and> 1 < length sample_events \<and>
   Event (sample_events ! 0) = ''IN'' \<and> Event (sample_events ! 1) \<noteq> ''IN'' \<and>
   item_time (renderEvent sample_env 1736930000000 (sample_events ! 0)) = ''Today, 8:15:00 AM'' \<and>
   badge_text (renderEvent sample_env 1736930000000 (sample_events ! 0)) = ''Clock In'' \<and>
   item_time (renderEvent sample_env 1736930000000 (sample_events ! 1))
     = ''1/14/2025, 5:30:00 PM'' \<and>
   badge_text (renderEvent sample_env 1736930000000 (sample_events ! 1)) = ''Clock Out''"
proof -
  have e: "el_recentEvents sample_page \<noteq> None"
    by (simp add: sample_page_def)
  have l: "0 < length sample_events" "1 < length sample_events"
    by (simp_all add: sample_events_def)
  from event_projection [OF e l(1), of sample_env 1736930000000]
       event_projection [OF e l(2), of sample_env 1736930000000]
  show ?thesis
    using e l by (simp add: sample_events_def sample_env_def)
qed

text \<open>
  C7 as stated fails: the direction \<^verbatim>\<open>BREAK\<close> is neither \<^verbatim>\<open>IN\<close> nor \<^verbatim>\<open>OUT\<close>, and
  its badge is the very badge of an \<^verbatim>\<open>OUT\<close> record.
\<close>

theorem unknown_direction_counterexample:
  "Event (sample_events ! 2) = ''BREAK'' \<and> Event (sample_events ! 1) = ''OUT'' \<and>
   badge_class (renderEvent sample_env 1736930000000 (sample_events ! 2)) = ''bg-secondary'' \<and>
   badge_text (renderEvent sample_env 1736930000000 (sample_events ! 2)) = ''Clock Out'' \<and>
   badge_class (renderEvent sample_env 1736930000000 (sample_events ! 1)) = ''bg-secondary'' \<and>
   badge_text (renderEvent sample_env 1736930000000 (sample_events ! 1)) = ''Clock Out''"
  by (simp add: sample_events_def renderEvent_def Let_def)

text \<open>
  C8. When the request for the events rejects, the stored \<^verbatim>\<open>recentEvents\<close>, the
  rendered feed and the recognition count are the ones from before; the state changes by
  one console error only, and the promise of the chain is fulfilled, so the error does
  not leave the synchronizer. A body that does not parse, or parses to \<^verbatim>\<open>null\<close>,
  ends the same way.
\<close>

theorem failed_refresh_keeps_view:
  "recentEvents (fst (refreshRecentEvents_settled env now (Rejected e) s)) = recentEvents s \<and>
   el_recentEvents (fst (refreshRecentEvents_settled env now (Rejected e) s)) = el_recentEvents s \<and>
   el_recognitionCount (fst (refreshRecentEvents_settled env now (Rejected e) s))
     = el_recognitionCount s \<and>
   refreshRecentEvents_settled env now (Rejected e) s
     = (s\<lparr>console := console s @ [ConsoleError ''Error fetching recent events:'']\<rparr>,
        Fulfilled ()) \<and>
   refreshRecentEvents_settled env now (Fulfilled Body_malformed) s
     = (s\<lparr>console := console s @ [ConsoleError ''Error fetching recent events:'']\<rparr>,
        Fulfilled ()) \<and>
   refreshRecentEvents_settled env now (Fulfilled (Body_ok JNull)) s
     = (s\<lparr>console := console s @ [ConsoleError ''Error fetching recent events:'']\<rparr>,
        Fulfilled ())"
  by (simp add: refreshRecentEvents_settled_def refreshRecentEvents_error_def)

text \<open>
  C10. A successful reply whose \<^verbatim>\<open>events\<close> array is empty replaces the stored
  \<^verbatim>\<open>recentEvents\<close> by the empty list and changes nothing else:
  \<^verbatim>\<open>updateRecentEventsDisplay\<close> returns early, so the rendered feed and the recognition
  count stay. A feed that showed records before still shows them, and so differs from
  the rendering of the stored, empty list.
\<close>

theorem empty_result_keeps_view:
  assumes "truthy (success d)" and "events d = Some []"
  shows "fst (refreshRecentEvents_settled env now (Fulfilled (Body_ok (JObj d))) s)
           = s\<lparr>recentEvents := Some []\<rparr>
       \<and> (\<forall>x xs. el_recentEvents s = Some (x # xs) \<longrightarrow>
            el_recentEvents (fst (refreshRecentEvents_settled env now
                                    (Fulfilled (Body_ok (JObj d))) s))
              \<noteq> Some (map (renderEvent env now) []))"
  using assms
  by (simp add: refreshRecentEvents_settled_def updateRecentEventsDisplay_def)

theorem empty_result_keeps_view_witness:
  "truthy (success (logs_reply [])) \<and> events (logs_reply []) = Some [] \<and>
   recentEvents feed_page = Some sample_events \<and>
   recentEvents (fst (refreshRecentEvents_settled sample_env 1736930060000
                        (Fulfilled (Body_ok (JObj (logs_reply [])))) feed_page)) = Some [] \<and>
   el_recentEvents (fst (refreshRecentEvents_settled sample_env 1736930060000
                        (Fulfilled (Body_ok (JObj (logs_reply [])))) feed_page))
     = el_recentEvents feed_page \<and>
   length (the (el_recentEvents feed_page)) = 3"
proof -
  have h: "truthy (success (logs_reply []))" "events (logs_reply []) = Some []"
    by (simp_all add: logs_reply_def)
  from empty_result_keeps_view [OF h, of sample_env 1736930060000 feed_page]
  show ?thesis
    using h by (simp add: feed_page_items)
qed

end
